theory Spec2Isabelle
  imports Complex_Main "HOL-Library.Word"
begin

section \<open>Failure channels and basic types\<close>

text \<open>
  The header \<^verbatim>\<open>abby2.hpp\<close> fails in three ways.  A \<^verbatim>\<open>throw std::invalid_argument\<close>
  leaves the object behind in whatever state the method had reached; the five messages of the
  header are the constructors of \<open>exn\<close>.  A failed \<^verbatim>\<open>assert\<close> (the header is modelled as
  built without \<^verbatim>\<open>NDEBUG\<close>) and an index outside a \<^verbatim>\<open>std::vector\<close> end the program; they
  are the constructors \<open>Assertion_failed\<close> and \<open>Out_of_range\<close> of \<open>error\<close>.  While loops
  whose termination depends on the shape of the node pool run on fuel, \<open>Out_of_fuel\<close> standing
  for a loop that has not finished.

  \<^verbatim>\<open>unsigned int\<close> is a 32 bit word, \<^verbatim>\<open>int\<close> (node heights) is an unbounded integer, and
  \<^verbatim>\<open>double\<close> is idealised as a real number (no rounding, no NaN, no infinities).
\<close>

datatype exn =
    Invalid_dimensionality
  | Dimensionality_mismatch
  | Lower_greater_than_upper
  | Particle_already_exists
  | Invalid_particle_index

datatype error = Assertion_failed | Out_of_range | Out_of_fuel

datatype ('s, 'a) outcome = Returned 'a 's | Thrown exn 's | Crashed error

type_synonym u32 = "32 word"

definition NULL_NODE :: u32 where
  "NULL_NODE = 0xffffffff"

definition bindE :: "error + 'a \<Rightarrow> ('a \<Rightarrow> error + 'b) \<Rightarrow> error + 'b" where
  "bindE m f = (case m of Inl e \<Rightarrow> Inl e | Inr x \<Rightarrow> f x)"

definition assertE :: "bool \<Rightarrow> error + unit" where
  "assertE b = (if b then Inr () else Inl Assertion_failed)"

definition vget :: "'a list \<Rightarrow> nat \<Rightarrow> error + 'a" where
  "vget v i = (if i < length v then Inr (v ! i) else Inl Out_of_range)"

definition vset :: "'a list \<Rightarrow> nat \<Rightarrow> 'a \<Rightarrow> error + 'a list" where
  "vset v i x = (if i < length v then Inr (v[i := x]) else Inl Out_of_range)"

definition resize :: "nat \<Rightarrow> 'a \<Rightarrow> 'a list \<Rightarrow> 'a list" where
  "resize n d v = take n v @ replicate (n - length v) d"

section \<open>The class AABB\<close>

record AABB =
  lowerBound :: "real list"
  upperBound :: "real list"
  centre :: "real list"
  surfaceArea :: real

text \<open>A value-initialised box, as \<^verbatim>\<open>std::vector<Node>::resize\<close> produces inside a node.\<close>

definition emptyAABB :: AABB where
  "emptyAABB = \<lparr>lowerBound = [], upperBound = [], centre = [], surfaceArea = 0\<rparr>"

fun sideProduct :: "AABB \<Rightarrow> nat \<Rightarrow> nat list \<Rightarrow> real \<Rightarrow> error + real" where
  "sideProduct a d1 [] product = Inr product"
| "sideProduct a d1 (d2 # ds) product =
     (if d1 = d2 then sideProduct a d1 ds product
      else bindE (vget (upperBound a) d2) (\<lambda>u.
           bindE (vget (lowerBound a) d2) (\<lambda>l.
           sideProduct a d1 ds (product * (u - l)))))"

fun sideSum :: "AABB \<Rightarrow> nat list \<Rightarrow> real \<Rightarrow> error + real" where
  "sideSum a [] accum = Inr accum"
| "sideSum a (d1 # ds) accum =
     bindE (sideProduct a d1 [0..<length (lowerBound a)] 1) (\<lambda>product.
     sideSum a ds (accum + product))"

definition computeSurfaceArea :: "AABB \<Rightarrow> error + real" where
  "computeSurfaceArea a =
     bindE (sideSum a [0..<length (lowerBound a)] 0) (\<lambda>accum. Inr (2 * accum))"

fun centreLoop :: "AABB \<Rightarrow> nat list \<Rightarrow> real list \<Rightarrow> error + real list" where
  "centreLoop a [] position = Inr position"
| "centreLoop a (i # is) position =
     bindE (vget (lowerBound a) i) (\<lambda>l.
     bindE (vget (upperBound a) i) (\<lambda>u.
     bindE (vset position i (0.5 * (l + u))) (\<lambda>position'.
     centreLoop a is position')))"

definition computeCentre :: "AABB \<Rightarrow> error + real list" where
  "computeCentre a =
     centreLoop a [0..<length (lowerBound a)] (replicate (length (lowerBound a)) 0)"

definition refreshDerived :: "AABB \<Rightarrow> error + AABB" where
  \<comment> \<open>the pair of statements \<^verbatim>\<open>surfaceArea = computeSurfaceArea(); centre = computeCentre();\<close>\<close>
  "refreshDerived a =
     bindE (computeSurfaceArea a) (\<lambda>s.
     bindE (computeCentre (a\<lparr>surfaceArea := s\<rparr>)) (\<lambda>c.
     Inr (a\<lparr>surfaceArea := s, centre := c\<rparr>)))"

fun ctorCheck :: "AABB \<Rightarrow> nat list \<Rightarrow> (unit, bool) outcome" where
  "ctorCheck this [] = Returned True ()"
| "ctorCheck this (i # is) =
     (case bindE (vget (lowerBound this) i) (\<lambda>l.
           bindE (vget (upperBound this) i) (\<lambda>u. Inr (l > u))) of
        Inl e \<Rightarrow> Crashed e
      | Inr inverted \<Rightarrow>
          if inverted then Thrown Lower_greater_than_upper () else ctorCheck this is)"

text \<open>
  The constructor \<^verbatim>\<open>AABB(const std::vector<double>& lowerBound_, const std::vector<double>&
  upperBound_)\<close>.  It has no member initialiser list and its body never mentions the two
  parameters: both checks read the members \<^verbatim>\<open>lowerBound\<close> and \<^verbatim>\<open>upperBound\<close> of the object
  under construction, which are empty vectors at that point.
\<close>

definition AABB_ctor :: "real list \<Rightarrow> real list \<Rightarrow> (unit, AABB) outcome" where
  "AABB_ctor lowerArg upperArg =
     (let this = emptyAABB in
      if length (lowerBound this) \<noteq> length (upperBound this)
      then Thrown Dimensionality_mismatch ()
      else case ctorCheck this [0..<length (lowerBound this)] of
             Crashed e \<Rightarrow> Crashed e
           | Thrown x u \<Rightarrow> Thrown x ()
           | Returned b u \<Rightarrow>
               (case refreshDerived this of Inl e \<Rightarrow> Crashed e | Inr a \<Rightarrow> Returned a ()))"

fun mergeLoop :: "AABB \<Rightarrow> AABB \<Rightarrow> nat list \<Rightarrow> AABB \<Rightarrow> error + AABB" where
  "mergeLoop aabb1 aabb2 [] this = Inr this"
| "mergeLoop aabb1 aabb2 (i # is) this =
     bindE (vget (lowerBound aabb1) i) (\<lambda>l1.
     bindE (vget (lowerBound aabb2) i) (\<lambda>l2.
     bindE (vset (lowerBound this) i (min l1 l2)) (\<lambda>lo.
     bindE (vget (upperBound aabb1) i) (\<lambda>u1.
     bindE (vget (upperBound aabb2) i) (\<lambda>u2.
     bindE (vset (upperBound this) i (max u1 u2)) (\<lambda>up.
     mergeLoop aabb1 aabb2 is (this\<lparr>lowerBound := lo, upperBound := up\<rparr>)))))))"

text \<open>
  \<^verbatim>\<open>this->merge(aabb1, aabb2)\<close>, returning the new value of \<^verbatim>\<open>*this\<close>.  The two arguments are
  taken by value here: every component is read before it is written, so a receiver that
  aliases an argument of equal dimension gets the same result.
\<close>

definition merge :: "AABB \<Rightarrow> AABB \<Rightarrow> AABB \<Rightarrow> error + AABB" where
  "merge this aabb1 aabb2 =
     bindE (assertE (length (lowerBound aabb1) = length (lowerBound aabb2))) (\<lambda>_.
     bindE (assertE (length (upperBound aabb1) = length (upperBound aabb2))) (\<lambda>_.
     let n = length (lowerBound aabb1);
         this1 = this\<lparr>lowerBound := resize n 0 (lowerBound this),
                      upperBound := resize n 0 (upperBound this)\<rparr>
     in bindE (mergeLoop aabb1 aabb2 [0..<n] this1) refreshDerived))"

fun containsLoop :: "AABB \<Rightarrow> AABB \<Rightarrow> nat list \<Rightarrow> error + bool" where
  "containsLoop this other [] = Inr True"
| "containsLoop this other (i # is) =
     bindE (vget (lowerBound other) i) (\<lambda>ol.
     bindE (vget (lowerBound this) i) (\<lambda>tl.
     if ol < tl then Inr False
     else bindE (vget (upperBound other) i) (\<lambda>ou.
          bindE (vget (upperBound this) i) (\<lambda>tu.
          if ou > tu then Inr False else containsLoop this other is))))"

definition contains :: "AABB \<Rightarrow> AABB \<Rightarrow> error + bool" where
  "contains this other =
     bindE (assertE (length (lowerBound other) = length (lowerBound this))) (\<lambda>_.
     containsLoop this other [0..<length (lowerBound this)])"

fun overlapsLoop :: "bool \<Rightarrow> AABB \<Rightarrow> AABB \<Rightarrow> nat list \<Rightarrow> error + bool" where
  "overlapsLoop touch this other [] = Inr True"
| "overlapsLoop touch this other (i # is) =
     bindE (vget (upperBound other) i) (\<lambda>ou.
     bindE (vget (lowerBound this) i) (\<lambda>tl.
     if (if touch then ou < tl else ou \<le> tl) then Inr False
     else bindE (vget (lowerBound other) i) (\<lambda>ol.
          bindE (vget (upperBound this) i) (\<lambda>tu.
          if (if touch then ol > tu else ol \<ge> tu) then Inr False
          else overlapsLoop touch this other is))))"

definition overlaps :: "AABB \<Rightarrow> AABB \<Rightarrow> bool \<Rightarrow> error + bool" where
  "overlaps this other touch =
     bindE (assertE (length (lowerBound other) = length (lowerBound this))) (\<lambda>_.
     overlapsLoop touch this other [0..<length (lowerBound this)])"

definition setDimension :: "AABB \<Rightarrow> u32 \<Rightarrow> error + AABB" where
  "setDimension this d =
     bindE (assertE (d \<ge> 2)) (\<lambda>_.
     Inr (this\<lparr>lowerBound := resize (unat d) 0 (lowerBound this),
               upperBound := resize (unat d) 0 (upperBound this)\<rparr>))"

section \<open>Nodes and the node pool\<close>

record Node =
  aabb :: AABB
  parent :: u32
  "next" :: u32
  left :: u32
  right :: u32
  height :: int
  particle :: u32

definition isLeaf :: "Node \<Rightarrow> bool" where
  "isLeaf n = (left n = NULL_NODE)"

text \<open>A value-initialised node: what \<^verbatim>\<open>nodes.resize\<close> appends to the pool.\<close>

definition defaultNode :: Node where
  "defaultNode = \<lparr>aabb = emptyAABB, parent = 0, next = 0, left = 0, right = 0,
                   height = 0, particle = 0\<rparr>"

text \<open>
  The field \<open>rootIdx\<close> is the member \<^verbatim>\<open>root\<close>.  The \<^verbatim>\<open>std::unordered_map\<close> is an association
  list with distinct keys; the order of the list is the order in which \<^verbatim>\<open>removeAll\<close> iterates.
\<close>

record Tree =
  rootIdx :: u32
  nodes :: "Node list"
  nodeCount :: u32
  nodeCapacity :: u32
  freeList :: u32
  dimension :: u32
  skinThickness :: real
  particleMap :: "(u32 \<times> u32) list"
  touchIsOverlap :: bool

definition rd :: "Tree \<Rightarrow> u32 \<Rightarrow> error + Node" where
  \<comment> \<open>a read of \<^verbatim>\<open>nodes[i]\<close>\<close>
  "rd t i = vget (nodes t) (unat i)"

definition wr :: "Tree \<Rightarrow> u32 \<Rightarrow> (Node \<Rightarrow> Node) \<Rightarrow> error + Tree" where
  \<comment> \<open>an assignment to fields of \<^verbatim>\<open>nodes[i]\<close>\<close>
  "wr t i f =
     (if unat i < length (nodes t)
      then Inr (t\<lparr>nodes := (nodes t)[unat i := f (nodes t ! unat i)]\<rparr>)
      else Inl Out_of_range)"

function linkFree :: "Node list \<Rightarrow> u32 \<Rightarrow> u32 \<Rightarrow> error + Node list" where
  "linkFree ns i bound =
     (if i < bound
      then (if unat i < length ns
            then linkFree (ns[unat i := (ns ! unat i)\<lparr>next := i + 1, height := - 1\<rparr>]) (i + 1) bound
            else Inl Out_of_range)
      else Inr ns)"
  by pat_completeness auto
termination
proof (relation "measure (\<lambda>(ns, i, bound). unat bound - unat i)")
  show "wf (measure (\<lambda>(ns, i, bound). unat bound - unat i))"
    by simp
next
  fix ns :: "Node list" and i bound :: u32
  assume lt: "i < bound"
  then have "unat (i + 1) = Suc (unat i)"
    by unat_arith
  moreover from lt have "unat i < unat bound"
    by (simp add: word_less_nat_alt)
  ultimately show
    "((ns[unat i := (ns ! unat i)\<lparr>next := i + 1, height := - 1\<rparr>], i + 1, bound), (ns, i, bound))
       \<in> measure (\<lambda>(ns, i, bound). unat bound - unat i)"
    by simp
qed

definition endFree :: "Node list \<Rightarrow> u32 \<Rightarrow> error + Node list" where
  \<comment> \<open>\<^verbatim>\<open>nodes[nodeCapacity - 1].next = NULL_NODE; nodes[nodeCapacity - 1].height = -1;\<close>\<close>
  "endFree ns i =
     (if unat i < length ns
      then Inr (ns[unat i := (ns ! unat i)\<lparr>next := NULL_NODE, height := - 1\<rparr>])
      else Inl Out_of_range)"

definition Tree_ctor :: "u32 \<Rightarrow> real \<Rightarrow> u32 \<Rightarrow> bool \<Rightarrow> (unit, Tree) outcome" where
  "Tree_ctor dimensionArg skinArg nParticles touchArg =
     (if dimensionArg < 2 then Thrown Invalid_dimensionality ()
      else
        case bindE (linkFree (resize (unat nParticles) defaultNode []) 0 (nParticles - 1))
               (\<lambda>ns. endFree ns (nParticles - 1)) of
          Inl e \<Rightarrow> Crashed e
        | Inr ns \<Rightarrow>
            Returned \<lparr>rootIdx = NULL_NODE, nodes = ns, nodeCount = 0, nodeCapacity = nParticles,
                      freeList = 0, dimension = dimensionArg, skinThickness = skinArg,
                      particleMap = [], touchIsOverlap = touchArg\<rparr> ())"

definition growPool :: "Tree \<Rightarrow> error + Tree" where
  \<comment> \<open>the body of \<^verbatim>\<open>if (freeList == NULL_NODE)\<close> in \<^verbatim>\<open>allocateNode\<close>\<close>
  "growPool t =
     bindE (assertE (nodeCount t = nodeCapacity t)) (\<lambda>_.
     let cap = nodeCapacity t * 2 in
     bindE (linkFree (resize (unat cap) defaultNode (nodes t)) (nodeCount t) (cap - 1)) (\<lambda>ns.
     bindE (endFree ns (cap - 1)) (\<lambda>ns'.
     Inr (t\<lparr>nodeCapacity := cap, nodes := ns', freeList := nodeCount t\<rparr>))))"

definition allocateNode :: "Tree \<Rightarrow> error + u32 \<times> Tree" where
  "allocateNode t0 =
     bindE (if freeList t0 = NULL_NODE then growPool t0 else Inr t0) (\<lambda>t.
     let node = freeList t in
     bindE (rd t node) (\<lambda>n.
     bindE (setDimension (aabb n) (dimension t)) (\<lambda>a.
     bindE (wr t node (\<lambda>n. n\<lparr>parent := NULL_NODE, left := NULL_NODE, right := NULL_NODE,
                                 height := 0, aabb := a\<rparr>)) (\<lambda>t'.
     Inr (node, t'\<lparr>freeList := next n, nodeCount := nodeCount t + 1\<rparr>)))))"

definition freeNode :: "Tree \<Rightarrow> u32 \<Rightarrow> error + Tree" where
  "freeNode t node =
     bindE (assertE (node < nodeCapacity t)) (\<lambda>_.
     bindE (assertE (0 < nodeCount t)) (\<lambda>_.
     bindE (wr t node (\<lambda>n. n\<lparr>next := freeList t, height := - 1\<rparr>)) (\<lambda>t'.
     Inr (t'\<lparr>freeList := node, nodeCount := nodeCount t - 1\<rparr>))))"

definition mergeInto :: "Tree \<Rightarrow> u32 \<Rightarrow> u32 \<Rightarrow> u32 \<Rightarrow> error + Tree" where
  \<comment> \<open>\<^verbatim>\<open>nodes[target].aabb.merge(nodes[a].aabb, nodes[b].aabb);\<close>\<close>
  "mergeInto t target a b =
     bindE (rd t target) (\<lambda>tn.
     bindE (rd t a) (\<lambda>an.
     bindE (rd t b) (\<lambda>bn.
     bindE (merge (aabb tn) (aabb an) (aabb bn)) (\<lambda>m.
     wr t target (\<lambda>n. n\<lparr>aabb := m\<rparr>)))))"

definition setHeight :: "Tree \<Rightarrow> u32 \<Rightarrow> u32 \<Rightarrow> u32 \<Rightarrow> error + Tree" where
  \<comment> \<open>\<^verbatim>\<open>nodes[target].height = 1 + std::max(nodes[a].height, nodes[b].height);\<close>\<close>
  "setHeight t target a b =
     bindE (rd t a) (\<lambda>an.
     bindE (rd t b) (\<lambda>bn.
     wr t target (\<lambda>n. n\<lparr>height := 1 + max (height an) (height bn)\<rparr>)))"

section \<open>Rotations\<close>

definition relinkParent :: "Tree \<Rightarrow> u32 \<Rightarrow> u32 \<Rightarrow> error + Tree" where
  \<comment> \<open>the block under ``the node's old parent should now point to its child'', \<open>up\<close> being
      that child\<close>
  "relinkParent t node up =
     bindE (rd t up) (\<lambda>un.
     if parent un \<noteq> NULL_NODE
     then bindE (rd t (parent un)) (\<lambda>pn.
          if left pn = node then wr t (parent un) (\<lambda>n. n\<lparr>left := up\<rparr>)
          else bindE (assertE (right pn = node)) (\<lambda>_.
               wr t (parent un) (\<lambda>n. n\<lparr>right := up\<rparr>)))
     else Inr (t\<lparr>rootIdx := up\<rparr>))"

definition reattach :: "bool \<Rightarrow> Tree \<Rightarrow> u32 \<Rightarrow> u32 \<Rightarrow> u32 \<Rightarrow> u32 \<Rightarrow> u32 \<Rightarrow> error + Tree" where
  \<comment> \<open>the seven statements of one branch under ``Rotate'': the hoisted child \<open>up\<close> keeps
      \<open>kept\<close> as its right child, \<open>moved\<close> goes under \<open>node\<close> (in its right slot when the right
      child was hoisted, in its left slot otherwise), and both boxes and heights are
      recomputed\<close>
  "reattach hoistRight t node up other kept moved =
     bindE (wr t up (\<lambda>n. n\<lparr>right := kept\<rparr>)) (\<lambda>t1.
     bindE (wr t1 node (\<lambda>n. if hoistRight then n\<lparr>right := moved\<rparr> else n\<lparr>left := moved\<rparr>)) (\<lambda>t2.
     bindE (wr t2 moved (\<lambda>n. n\<lparr>parent := node\<rparr>)) (\<lambda>t3.
     bindE (mergeInto t3 node other moved) (\<lambda>t4.
     bindE (mergeInto t4 up node kept) (\<lambda>t5.
     bindE (setHeight t5 node other moved) (\<lambda>t6.
     setHeight t6 up node kept))))))"

definition rotateUp :: "bool \<Rightarrow> Tree \<Rightarrow> u32 \<Rightarrow> u32 \<Rightarrow> u32 \<Rightarrow> error + u32 \<times> Tree" where
  \<comment> \<open>the body of ``Rotate right branch up'' (\<open>hoistRight\<close>, with \<open>up\<close> the right and \<open>other\<close>
      the left child of \<open>node\<close>) and of ``Rotate left branch up'' (the two exchanged); the two
      bodies differ only in the slot of \<open>node\<close> that receives the moved grandchild\<close>
  "rotateUp hoistRight t node up other =
     bindE (rd t up) (\<lambda>un.
     let upLeft = left un; upRight = right un in
     bindE (assertE (upLeft < nodeCapacity t)) (\<lambda>_.
     bindE (assertE (upRight < nodeCapacity t)) (\<lambda>_.
     bindE (wr t up (\<lambda>n. n\<lparr>left := node\<rparr>)) (\<lambda>t1.
     bindE (rd t1 node) (\<lambda>nn.
     bindE (wr t1 up (\<lambda>n. n\<lparr>parent := parent nn\<rparr>)) (\<lambda>t2.
     bindE (wr t2 node (\<lambda>n. n\<lparr>parent := up\<rparr>)) (\<lambda>t3.
     bindE (relinkParent t3 node up) (\<lambda>t4.
     bindE (rd t4 upLeft) (\<lambda>uln.
     bindE (rd t4 upRight) (\<lambda>urn.
     bindE (if height uln > height urn
            then reattach hoistRight t4 node up other upLeft upRight
            else reattach hoistRight t4 node up other upRight upLeft) (\<lambda>t5.
     Inr (up, t5))))))))))))"

definition balance :: "Tree \<Rightarrow> u32 \<Rightarrow> error + u32 \<times> Tree" where
  "balance t node =
     bindE (assertE (node \<noteq> NULL_NODE)) (\<lambda>_.
     bindE (rd t node) (\<lambda>n.
     if isLeaf n \<or> height n < 2 then Inr (node, t)
     else
       let leftIx = left n; rightIx = right n in
       bindE (assertE (leftIx < nodeCapacity t)) (\<lambda>_.
       bindE (assertE (rightIx < nodeCapacity t)) (\<lambda>_.
       bindE (rd t rightIx) (\<lambda>rn.
       bindE (rd t leftIx) (\<lambda>ln.
       let currentBalance = height rn - height ln in
       if currentBalance > 1 then rotateUp True t node rightIx leftIx
       else if currentBalance < - 1 then rotateUp False t node leftIx rightIx
       else Inr (node, t)))))))"

section \<open>Inserting and removing leaves\<close>

definition childCost :: "Tree \<Rightarrow> AABB \<Rightarrow> real \<Rightarrow> u32 \<Rightarrow> error + real" where
  \<comment> \<open>``Cost of descending to the left'' and ``to the right''\<close>
  "childCost t leafAABB inheritanceCost child =
     bindE (rd t child) (\<lambda>cn.
     bindE (merge emptyAABB leafAABB (aabb cn)) (\<lambda>m.
     if isLeaf cn then Inr (surfaceArea m + inheritanceCost)
     else Inr ((surfaceArea m - surfaceArea (aabb cn)) + inheritanceCost)))"

definition sahCosts :: "Tree \<Rightarrow> AABB \<Rightarrow> Node \<Rightarrow> error + real \<times> real \<times> real" where
  \<comment> \<open>the triple \<^verbatim>\<open>(cost, costLeft, costRight)\<close> computed at an internal node\<close>
  "sahCosts t leafAABB n =
     bindE (merge emptyAABB (aabb n) leafAABB) (\<lambda>combinedAABB.
     let combinedSurfaceArea = surfaceArea combinedAABB;
         cost = 2 * combinedSurfaceArea;
         inheritanceCost = 2 * (combinedSurfaceArea - surfaceArea (aabb n))
     in bindE (childCost t leafAABB inheritanceCost (left n)) (\<lambda>costLeft.
        bindE (childCost t leafAABB inheritanceCost (right n)) (\<lambda>costRight.
        Inr (cost, costLeft, costRight))))"

definition descendStep :: "Tree \<Rightarrow> AABB \<Rightarrow> u32 \<Rightarrow> error + u32 option" where
  \<comment> \<open>one round of \<^verbatim>\<open>while (!nodes[index].isLeaf())\<close>: \<open>None\<close> when the loop is left with
      \<open>index\<close> (the condition fails, or the \<^verbatim>\<open>break\<close> is taken), the next index otherwise\<close>
  "descendStep t leafAABB index =
     bindE (rd t index) (\<lambda>n.
     if isLeaf n then Inr None
     else bindE (sahCosts t leafAABB n) (\<lambda>(cost, costLeft, costRight).
          if cost < costLeft \<and> cost < costRight then Inr None
          else if costLeft < costRight then Inr (Some (left n))
          else Inr (Some (right n))))"

fun findSibling :: "nat \<Rightarrow> Tree \<Rightarrow> AABB \<Rightarrow> u32 \<Rightarrow> error + u32" where
  "findSibling 0 t leafAABB index = Inl Out_of_fuel"
| "findSibling (Suc k) t leafAABB index =
     bindE (descendStep t leafAABB index) (\<lambda>step.
     case step of None \<Rightarrow> Inr index | Some index' \<Rightarrow> findSibling k t leafAABB index')"

fun fixAfterInsert :: "nat \<Rightarrow> Tree \<Rightarrow> u32 \<Rightarrow> error + Tree" where
  "fixAfterInsert 0 t index = Inl Out_of_fuel"
| "fixAfterInsert (Suc k) t index =
     (if index = NULL_NODE then Inr t
      else bindE (balance t index) (\<lambda>(index1, t1).
           bindE (rd t1 index1) (\<lambda>n.
           bindE (assertE (left n \<noteq> NULL_NODE)) (\<lambda>_.
           bindE (assertE (right n \<noteq> NULL_NODE)) (\<lambda>_.
           bindE (setHeight t1 index1 (left n) (right n)) (\<lambda>t2.
           bindE (mergeInto t2 index1 (left n) (right n)) (\<lambda>t3.
           bindE (rd t3 index1) (\<lambda>n3.
           fixAfterInsert k t3 (parent n3)))))))))"

definition linkChildren :: "Tree \<Rightarrow> u32 \<Rightarrow> u32 \<Rightarrow> u32 \<Rightarrow> error + Tree" where
  \<comment> \<open>the four assignments that both branches of \<^verbatim>\<open>if (oldParent != NULL_NODE)\<close> share\<close>
  "linkChildren t newParent sibling leaf =
     bindE (wr t newParent (\<lambda>n. n\<lparr>left := sibling\<rparr>)) (\<lambda>t1.
     bindE (wr t1 newParent (\<lambda>n. n\<lparr>right := leaf\<rparr>)) (\<lambda>t2.
     bindE (wr t2 sibling (\<lambda>n. n\<lparr>parent := newParent\<rparr>)) (\<lambda>t3.
     wr t3 leaf (\<lambda>n. n\<lparr>parent := newParent\<rparr>))))"

definition attachLeaf :: "Tree \<Rightarrow> AABB \<Rightarrow> u32 \<Rightarrow> u32 \<Rightarrow> error + Tree" where
  \<comment> \<open>\<^verbatim>\<open>insertLeaf\<close> from ``Create a new parent'' up to the walk back up the tree\<close>
  "attachLeaf t leafAABB sibling leaf =
     bindE (rd t sibling) (\<lambda>sn.
     let oldParent = parent sn in
     bindE (allocateNode t) (\<lambda>(newParent, t1).
     bindE (wr t1 newParent (\<lambda>n. n\<lparr>parent := oldParent\<rparr>)) (\<lambda>t2.
     bindE (rd t2 newParent) (\<lambda>pn.
     bindE (rd t2 sibling) (\<lambda>sn2.
     bindE (merge (aabb pn) leafAABB (aabb sn2)) (\<lambda>m.
     bindE (wr t2 newParent (\<lambda>n. n\<lparr>aabb := m\<rparr>)) (\<lambda>t3.
     bindE (rd t3 sibling) (\<lambda>sn3.
     bindE (wr t3 newParent (\<lambda>n. n\<lparr>height := height sn3 + 1\<rparr>)) (\<lambda>t4.
     if oldParent \<noteq> NULL_NODE
     then bindE (rd t4 oldParent) (\<lambda>opn.
          bindE (if left opn = sibling
                 then wr t4 oldParent (\<lambda>n. n\<lparr>left := newParent\<rparr>)
                 else wr t4 oldParent (\<lambda>n. n\<lparr>right := newParent\<rparr>)) (\<lambda>t5.
          linkChildren t5 newParent sibling leaf))
     else bindE (linkChildren t4 newParent sibling leaf) (\<lambda>t5.
          Inr (t5\<lparr>rootIdx := newParent\<rparr>)))))))))))"

definition insertLeaf :: "nat \<Rightarrow> Tree \<Rightarrow> u32 \<Rightarrow> error + Tree" where
  "insertLeaf fuel t leaf =
     (if rootIdx t = NULL_NODE
      then wr (t\<lparr>rootIdx := leaf\<rparr>) leaf (\<lambda>n. n\<lparr>parent := NULL_NODE\<rparr>)
      else bindE (rd t leaf) (\<lambda>ln.
           let leafAABB = aabb ln in
           bindE (findSibling fuel t leafAABB (rootIdx t)) (\<lambda>sibling.
           bindE (attachLeaf t leafAABB sibling leaf) (\<lambda>t1.
           bindE (rd t1 leaf) (\<lambda>ln1.
           fixAfterInsert fuel t1 (parent ln1))))))"

fun fixAfterRemove :: "nat \<Rightarrow> Tree \<Rightarrow> u32 \<Rightarrow> error + Tree" where
  "fixAfterRemove 0 t index = Inl Out_of_fuel"
| "fixAfterRemove (Suc k) t index =
     (if index = NULL_NODE then Inr t
      else bindE (balance t index) (\<lambda>(index1, t1).
           bindE (rd t1 index1) (\<lambda>n.
           bindE (mergeInto t1 index1 (left n) (right n)) (\<lambda>t2.
           bindE (setHeight t2 index1 (left n) (right n)) (\<lambda>t3.
           bindE (rd t3 index1) (\<lambda>n3.
           fixAfterRemove k t3 (parent n3)))))))"

definition removeLeaf :: "nat \<Rightarrow> Tree \<Rightarrow> u32 \<Rightarrow> error + Tree" where
  "removeLeaf fuel t leaf =
     (if leaf = rootIdx t then Inr (t\<lparr>rootIdx := NULL_NODE\<rparr>)
      else bindE (rd t leaf) (\<lambda>ln.
           let parentIx = parent ln in
           bindE (rd t parentIx) (\<lambda>pn.
           let grandParent = parent pn;
               sibling = (if left pn = leaf then right pn else left pn)
           in if grandParent \<noteq> NULL_NODE
              then bindE (rd t grandParent) (\<lambda>gn.
                   bindE (if left gn = parentIx
                          then wr t grandParent (\<lambda>n. n\<lparr>left := sibling\<rparr>)
                          else wr t grandParent (\<lambda>n. n\<lparr>right := sibling\<rparr>)) (\<lambda>t1.
                   bindE (wr t1 sibling (\<lambda>n. n\<lparr>parent := grandParent\<rparr>)) (\<lambda>t2.
                   bindE (freeNode t2 parentIx) (\<lambda>t3.
                   fixAfterRemove fuel t3 grandParent))))
              else bindE (wr (t\<lparr>rootIdx := sibling\<rparr>) sibling (\<lambda>n. n\<lparr>parent := NULL_NODE\<rparr>))
                     (\<lambda>t1. freeNode t1 parentIx))))"

section \<open>The public methods\<close>

definition liftE :: "error + Tree \<Rightarrow> 'a \<Rightarrow> (Tree, 'a) outcome" where
  "liftE m x = (case m of Inl e \<Rightarrow> Crashed e | Inr t \<Rightarrow> Returned x t)"

fun assignBounds ::
  "Tree \<Rightarrow> u32 \<Rightarrow> real list \<Rightarrow> real list \<Rightarrow> nat list \<Rightarrow> real list \<Rightarrow> (Tree, real list) outcome"
where
  "assignBounds t node lower upper [] sizes = Returned sizes t"
| "assignBounds t node lower upper (i # is) sizes =
     (case bindE (vget lower i) (\<lambda>l. bindE (vget upper i) (\<lambda>u. Inr (l, u))) of
        Inl e \<Rightarrow> Crashed e
      | Inr (l, u) \<Rightarrow>
          if l > u then Thrown Lower_greater_than_upper t
          else (case bindE (rd t node) (\<lambda>n.
                     bindE (vset (lowerBound (aabb n)) i l) (\<lambda>lo.
                     bindE (vset (upperBound (aabb n)) i u) (\<lambda>up.
                     bindE (wr t node (\<lambda>n. n\<lparr>aabb := (aabb n)\<lparr>lowerBound := lo, upperBound := up\<rparr>\<rparr>))
                       (\<lambda>t'.
                     bindE (vset sizes i (u - l)) (\<lambda>sizes'. Inr (sizes', t')))))) of
                  Inl e \<Rightarrow> Crashed e
                | Inr (sizes', t') \<Rightarrow> assignBounds t' node lower upper is sizes'))"

fun fattenAABB :: "real \<Rightarrow> real list \<Rightarrow> nat list \<Rightarrow> AABB \<Rightarrow> error + AABB" where
  "fattenAABB skin sizes [] a = Inr a"
| "fattenAABB skin sizes (i # is) a =
     bindE (vget sizes i) (\<lambda>sz.
     bindE (vget (lowerBound a) i) (\<lambda>l.
     bindE (vset (lowerBound a) i (l - skin * sz)) (\<lambda>lo.
     bindE (vget (upperBound a) i) (\<lambda>u.
     bindE (vset (upperBound a) i (u + skin * sz)) (\<lambda>up.
     fattenAABB skin sizes is (a\<lparr>lowerBound := lo, upperBound := up\<rparr>))))))"

definition finishInsert ::
  "nat \<Rightarrow> Tree \<Rightarrow> u32 \<Rightarrow> u32 \<Rightarrow> real list \<Rightarrow> error + Tree" where
  \<comment> \<open>\<^verbatim>\<open>insertParticle\<close> from ``Fatten the AABB'' to its end\<close>
  "finishInsert fuel t particleId node sizes =
     bindE (rd t node) (\<lambda>n.
     bindE (fattenAABB (skinThickness t) sizes [0..<unat (dimension t)] (aabb n)) (\<lambda>a.
     bindE (refreshDerived a) (\<lambda>a'.
     bindE (wr t node (\<lambda>n. n\<lparr>aabb := a', height := 0\<rparr>)) (\<lambda>t1.
     bindE (insertLeaf fuel t1 node) (\<lambda>t2.
     wr (t2\<lparr>particleMap := particleMap t2 @ [(particleId, node)]\<rparr>) node
        (\<lambda>n. n\<lparr>particle := particleId\<rparr>))))))"

definition wrongSizes :: "Tree \<Rightarrow> real list \<Rightarrow> real list \<Rightarrow> bool" where
  \<comment> \<open>\<^verbatim>\<open>(lowerBound.size() != dimension) || (upperBound.size() != dimension)\<close>\<close>
  "wrongSizes t lower upper =
     (length lower \<noteq> unat (dimension t) \<or> length upper \<noteq> unat (dimension t))"

definition insertParticle ::
  "nat \<Rightarrow> Tree \<Rightarrow> u32 \<Rightarrow> real list \<Rightarrow> real list \<Rightarrow> (Tree, unit) outcome" where
  "insertParticle fuel t particleId lower upper =
     (if map_of (particleMap t) particleId \<noteq> None then Thrown Particle_already_exists t
      else if wrongSizes t lower upper
      then Thrown Dimensionality_mismatch t
      else case allocateNode t of
             Inl e \<Rightarrow> Crashed e
           | Inr (node, t1) \<Rightarrow>
               (case assignBounds t1 node lower upper [0..<unat (dimension t1)]
                       (replicate (unat (dimension t1)) 0) of
                  Crashed e \<Rightarrow> Crashed e
                | Thrown x t2 \<Rightarrow> Thrown x t2
                | Returned sizes t2 \<Rightarrow> liftE (finishInsert fuel t2 particleId node sizes) ()))"

definition nParticles :: "Tree \<Rightarrow> u32" where
  "nParticles t = of_nat (length (particleMap t))"

definition removeParticle :: "nat \<Rightarrow> Tree \<Rightarrow> u32 \<Rightarrow> (Tree, unit) outcome" where
  "removeParticle fuel t particleId =
     (case map_of (particleMap t) particleId of
        None \<Rightarrow> Thrown Invalid_particle_index t
      | Some node \<Rightarrow>
          liftE (let t1 = t\<lparr>particleMap := filter (\<lambda>e. fst e \<noteq> particleId) (particleMap t)\<rparr> in
                 bindE (assertE (node < nodeCapacity t1)) (\<lambda>_.
                 bindE (rd t1 node) (\<lambda>n.
                 bindE (assertE (isLeaf n)) (\<lambda>_.
                 bindE (removeLeaf fuel t1 node) (\<lambda>t2.
                 freeNode t2 node))))) ())"

fun removeAllLoop :: "nat \<Rightarrow> Tree \<Rightarrow> (u32 \<times> u32) list \<Rightarrow> error + Tree" where
  "removeAllLoop fuel t [] = Inr t"
| "removeAllLoop fuel t (e # es) =
     (let node = snd e in
      bindE (assertE (node < nodeCapacity t)) (\<lambda>_.
      bindE (rd t node) (\<lambda>n.
      bindE (assertE (isLeaf n)) (\<lambda>_.
      bindE (removeLeaf fuel t node) (\<lambda>t1.
      bindE (freeNode t1 node) (\<lambda>t2.
      removeAllLoop fuel t2 es))))))"

definition removeAll :: "nat \<Rightarrow> Tree \<Rightarrow> (Tree, unit) outcome" where
  "removeAll fuel t =
     liftE (bindE (removeAllLoop fuel t (particleMap t)) (\<lambda>t'. Inr (t'\<lparr>particleMap := []\<rparr>))) ()"

fun sizeLoop ::
  "Tree \<Rightarrow> real list \<Rightarrow> real list \<Rightarrow> nat list \<Rightarrow> real list \<Rightarrow> (Tree, real list) outcome" where
  "sizeLoop t lower upper [] sizes = Returned sizes t"
| "sizeLoop t lower upper (i # is) sizes =
     (case bindE (vget lower i) (\<lambda>l. bindE (vget upper i) (\<lambda>u. Inr (l, u))) of
        Inl e \<Rightarrow> Crashed e
      | Inr (l, u) \<Rightarrow>
          if l > u then Thrown Lower_greater_than_upper t
          else (case vset sizes i (u - l) of
                  Inl e \<Rightarrow> Crashed e
                | Inr sizes' \<Rightarrow> sizeLoop t lower upper is sizes'))"

definition reinsert :: "nat \<Rightarrow> Tree \<Rightarrow> u32 \<Rightarrow> real list \<Rightarrow> AABB \<Rightarrow> error + Tree" where
  \<comment> \<open>\<^verbatim>\<open>updateParticle\<close> from ``Remove the current leaf'' to the call of \<^verbatim>\<open>insertLeaf\<close>\<close>
  "reinsert fuel t node sizes newAABB =
     bindE (removeLeaf fuel t node) (\<lambda>t1.
     bindE (fattenAABB (skinThickness t1) sizes [0..<unat (dimension t1)] newAABB) (\<lambda>a.
     bindE (wr t1 node (\<lambda>n. n\<lparr>aabb := a\<rparr>)) (\<lambda>t2.
     bindE (rd t2 node) (\<lambda>n.
     bindE (refreshDerived (aabb n)) (\<lambda>a'.
     bindE (wr t2 node (\<lambda>n. n\<lparr>aabb := a'\<rparr>)) (\<lambda>t3.
     insertLeaf fuel t3 node))))))"

definition updateParticle ::
  "nat \<Rightarrow> Tree \<Rightarrow> u32 \<Rightarrow> real list \<Rightarrow> real list \<Rightarrow> bool \<Rightarrow> (Tree, bool) outcome" where
  "updateParticle fuel t particleId lower upper alwaysReinsert =
     (if length lower \<noteq> unat (dimension t) \<and> length upper \<noteq> unat (dimension t)
      then Thrown Dimensionality_mismatch t
      else case map_of (particleMap t) particleId of
             None \<Rightarrow> Thrown Invalid_particle_index t
           | Some node \<Rightarrow>
               (case bindE (assertE (node < nodeCapacity t)) (\<lambda>_.
                     bindE (rd t node) (\<lambda>n.
                     bindE (assertE (isLeaf n)) (\<lambda>_. Inr n))) of
                  Inl e \<Rightarrow> Crashed e
                | Inr n \<Rightarrow>
                    (case sizeLoop t lower upper [0..<unat (dimension t)]
                            (replicate (unat (dimension t)) 0) of
                       Crashed e \<Rightarrow> Crashed e
                     | Thrown x t' \<Rightarrow> Thrown x t'
                     | Returned sizes t' \<Rightarrow>
                         (case AABB_ctor lower upper of
                            Crashed e \<Rightarrow> Crashed e
                          | Thrown x u \<Rightarrow> Thrown x t'
                          | Returned newAABB u \<Rightarrow>
                              (case (if alwaysReinsert then Inr False
                                     else contains (aabb n) newAABB) of
                                 Inl e \<Rightarrow> Crashed e
                               | Inr inside \<Rightarrow>
                                   if inside then Returned False t'
                                   else liftE (reinsert fuel t' node sizes newAABB) True)))))"

text \<open>
  The traversal stack of \<^verbatim>\<open>query\<close> is a list whose head is \<^verbatim>\<open>stack.back()\<close>.  The first
  statement of the loop body after the pop is the copy \<^verbatim>\<open>AABB nodeAABB = nodes[node].aabb\<close>;
  the test against \<^verbatim>\<open>NULL_NODE\<close> comes after it.
\<close>

fun queryLoop ::
  "nat \<Rightarrow> Tree \<Rightarrow> u32 \<Rightarrow> AABB \<Rightarrow> u32 list \<Rightarrow> u32 list \<Rightarrow> error + u32 list" where
  "queryLoop fuel t particleId box [] particles = Inr particles"
| "queryLoop 0 t particleId box (node # stack) particles = Inl Out_of_fuel"
| "queryLoop (Suc k) t particleId box (node # stack) particles =
     bindE (rd t node) (\<lambda>n.
     let nodeAABB = aabb n in
     if node = NULL_NODE then queryLoop k t particleId box stack particles
     else bindE (overlaps box nodeAABB (touchIsOverlap t)) (\<lambda>hit.
          if hit
          then (if isLeaf n
                then (if particle n \<noteq> particleId
                      then queryLoop k t particleId box stack (particles @ [particle n])
                      else queryLoop k t particleId box stack particles)
                else queryLoop k t particleId box (right n # left n # stack) particles)
          else queryLoop k t particleId box stack particles))"

definition query :: "nat \<Rightarrow> Tree \<Rightarrow> u32 \<Rightarrow> AABB \<Rightarrow> error + u32 list" where
  \<comment> \<open>\<^verbatim>\<open>query(unsigned int particle, const AABB& aabb)\<close>\<close>
  "query fuel t particleId box = queryLoop fuel t particleId box [rootIdx t] []"

definition queryParticle :: "nat \<Rightarrow> Tree \<Rightarrow> u32 \<Rightarrow> (Tree, u32 list) outcome" where
  \<comment> \<open>\<^verbatim>\<open>query(unsigned int particle)\<close>\<close>
  "queryParticle fuel t particleId =
     (case map_of (particleMap t) particleId of
        None \<Rightarrow> Thrown Invalid_particle_index t
      | Some node \<Rightarrow>
          (case bindE (rd t node) (\<lambda>n. query fuel t particleId (aabb n)) of
             Inl e \<Rightarrow> Crashed e
           | Inr ps \<Rightarrow> Returned ps t))"

definition queryAABB :: "nat \<Rightarrow> Tree \<Rightarrow> AABB \<Rightarrow> error + u32 list" where
  \<comment> \<open>\<^verbatim>\<open>query(const AABB& aabb)\<close>; the second argument of the delegation is
      \<^verbatim>\<open>std::numeric_limits<unsigned int>::max()\<close>\<close>
  "queryAABB fuel t box =
     (if length (particleMap t) = 0 then Inr []
      else query fuel t (- 1) box)"

text \<open>
  \<^verbatim>\<open>getAABB\<close> looks the particle up with \<^verbatim>\<open>particleMap[particle]\<close>.  On a missing key
  \<^verbatim>\<open>operator[]\<close> of \<^verbatim>\<open>std::unordered_map\<close> inserts the key with a value-initialised mapped
  value, here the node index 0, and returns that.
\<close>

definition getAABB :: "Tree \<Rightarrow> u32 \<Rightarrow> (Tree, AABB) outcome" where
  "getAABB t particleId =
     (let (node, t') =
            (case map_of (particleMap t) particleId of
               Some node \<Rightarrow> (node, t)
             | None \<Rightarrow> (0, t\<lparr>particleMap := particleMap t @ [(particleId, 0)]\<rparr>))
      in case rd t' node of Inl e \<Rightarrow> Crashed e | Inr n \<Rightarrow> Returned (aabb n) t')"

definition getHeight :: "Tree \<Rightarrow> error + u32" where
  "getHeight t =
     (if rootIdx t = NULL_NODE then Inr 0
      else bindE (rd t (rootIdx t)) (\<lambda>n. Inr (word_of_int (height n))))"

definition getNodeCount :: "Tree \<Rightarrow> u32" where
  "getNodeCount t = nodeCount t"

section \<open>Validation and rebuilding\<close>

fun validateStructure :: "nat \<Rightarrow> Tree \<Rightarrow> u32 \<Rightarrow> error + unit" where
  "validateStructure 0 t node = Inl Out_of_fuel"
| "validateStructure (Suc k) t node =
     (if node = NULL_NODE then Inr ()
      else bindE (rd t node) (\<lambda>n.
           bindE (if node = rootIdx t then assertE (parent n = NULL_NODE) else Inr ()) (\<lambda>_.
           if isLeaf n
           then bindE (assertE (left n = NULL_NODE)) (\<lambda>_.
                bindE (assertE (right n = NULL_NODE)) (\<lambda>_.
                assertE (height n = 0)))
           else bindE (assertE (left n < nodeCapacity t)) (\<lambda>_.
                bindE (assertE (right n < nodeCapacity t)) (\<lambda>_.
                bindE (rd t (left n)) (\<lambda>ln.
                bindE (assertE (parent ln = node)) (\<lambda>_.
                bindE (rd t (right n)) (\<lambda>rn.
                bindE (assertE (parent rn = node)) (\<lambda>_.
                bindE (validateStructure k t (left n)) (\<lambda>_.
                validateStructure k t (right n)))))))))))"

fun sameBounds :: "AABB \<Rightarrow> AABB \<Rightarrow> nat list \<Rightarrow> error + unit" where
  "sameBounds a b [] = Inr ()"
| "sameBounds a b (i # is) =
     bindE (vget (lowerBound a) i) (\<lambda>al.
     bindE (vget (lowerBound b) i) (\<lambda>bl.
     bindE (assertE (al = bl)) (\<lambda>_.
     bindE (vget (upperBound a) i) (\<lambda>au.
     bindE (vget (upperBound b) i) (\<lambda>bu.
     bindE (assertE (au = bu)) (\<lambda>_.
     sameBounds a b is))))))"

fun validateMetrics :: "nat \<Rightarrow> Tree \<Rightarrow> u32 \<Rightarrow> error + unit" where
  "validateMetrics 0 t node = Inl Out_of_fuel"
| "validateMetrics (Suc k) t node =
     (if node = NULL_NODE then Inr ()
      else bindE (rd t node) (\<lambda>n.
           if isLeaf n
           then bindE (assertE (left n = NULL_NODE)) (\<lambda>_.
                bindE (assertE (right n = NULL_NODE)) (\<lambda>_.
                assertE (height n = 0)))
           else bindE (assertE (left n < nodeCapacity t)) (\<lambda>_.
                bindE (assertE (right n < nodeCapacity t)) (\<lambda>_.
                bindE (rd t (left n)) (\<lambda>ln.
                bindE (rd t (right n)) (\<lambda>rn.
                bindE (assertE (height n = 1 + max (height ln) (height rn))) (\<lambda>_.
                bindE (merge emptyAABB (aabb ln) (aabb rn)) (\<lambda>m.
                bindE (sameBounds m (aabb n) [0..<unat (dimension t)]) (\<lambda>_.
                bindE (validateMetrics k t (left n)) (\<lambda>_.
                validateMetrics k t (right n)))))))))))"

fun countFree :: "nat \<Rightarrow> Tree \<Rightarrow> u32 \<Rightarrow> u32 \<Rightarrow> error + u32" where
  \<comment> \<open>the loop \<^verbatim>\<open>while (freeIndex != NULL_NODE)\<close> of \<^verbatim>\<open>validate\<close>\<close>
  "countFree 0 t freeIndex freeCount = Inl Out_of_fuel"
| "countFree (Suc k) t freeIndex freeCount =
     (if freeIndex \<noteq> NULL_NODE
      then bindE (assertE (freeIndex < nodeCapacity t)) (\<lambda>_.
           bindE (rd t freeIndex) (\<lambda>n.
           countFree k t (next n) (freeCount + 1)))
      else Inr freeCount)"

fun computeHeight :: "nat \<Rightarrow> Tree \<Rightarrow> u32 \<Rightarrow> error + u32" where
  "computeHeight 0 t node = Inl Out_of_fuel"
| "computeHeight (Suc k) t node =
     bindE (assertE (node < nodeCapacity t)) (\<lambda>_.
     bindE (rd t node) (\<lambda>n.
     if isLeaf n then Inr 0
     else bindE (computeHeight k t (left n)) (\<lambda>height1.
          bindE (computeHeight k t (right n)) (\<lambda>height2.
          Inr (1 + max height1 height2)))))"

definition validate :: "nat \<Rightarrow> Tree \<Rightarrow> error + unit" where
  "validate fuel t =
     bindE (validateStructure fuel t (rootIdx t)) (\<lambda>_.
     bindE (validateMetrics fuel t (rootIdx t)) (\<lambda>_.
     bindE (countFree fuel t (freeList t) 0) (\<lambda>freeCount.
     bindE (getHeight t) (\<lambda>h.
     bindE (computeHeight fuel t (rootIdx t)) (\<lambda>h'.
     bindE (assertE (h = h')) (\<lambda>_.
     assertE (nodeCount t + freeCount = nodeCapacity t)))))))"

definition indices :: "u32 \<Rightarrow> u32 list" where
  \<comment> \<open>the values of \<^verbatim>\<open>i\<close> in \<^verbatim>\<open>for (unsigned int i = 0; i < n; i++)\<close>\<close>
  "indices n = map of_nat [0..<unat n]"

fun collectLeaves ::
  "Tree \<Rightarrow> u32 list \<Rightarrow> u32 list \<Rightarrow> u32 \<Rightarrow> error + Tree \<times> u32 list \<times> u32" where
  "collectLeaves t [] nodeIndices count = Inr (t, nodeIndices, count)"
| "collectLeaves t (i # is) nodeIndices count =
     bindE (rd t i) (\<lambda>n.
     if height n < 0 then collectLeaves t is nodeIndices count
     else if isLeaf n
     then bindE (wr t i (\<lambda>n. n\<lparr>parent := NULL_NODE\<rparr>)) (\<lambda>t1.
          bindE (vset nodeIndices (unat count) i) (\<lambda>nodeIndices1.
          collectLeaves t1 is nodeIndices1 (count + 1)))
     else bindE (freeNode t i) (\<lambda>t1. collectLeaves t1 is nodeIndices count))"

definition DBL_MAX :: real where
  \<comment> \<open>\<^verbatim>\<open>std::numeric_limits<double>::max()\<close> of IEEE 754 binary64\<close>
  "DBL_MAX = (2 - 1 / 2 ^ 52) * 2 ^ 1023"

fun innerSearch ::
  "Tree \<Rightarrow> u32 list \<Rightarrow> AABB \<Rightarrow> nat \<Rightarrow> nat list \<Rightarrow> real \<times> int \<times> int \<Rightarrow> error + real \<times> int \<times> int"
where
  "innerSearch t nodeIndices aabbi i [] best = Inr best"
| "innerSearch t nodeIndices aabbi i (j # js) best =
     bindE (vget nodeIndices j) (\<lambda>nj.
     bindE (rd t nj) (\<lambda>njn.
     bindE (merge emptyAABB aabbi (aabb njn)) (\<lambda>m.
     let cost = surfaceArea m in
     innerSearch t nodeIndices aabbi i js
       (if cost < fst best then (cost, int i, int j) else best))))"

fun outerSearch ::
  "Tree \<Rightarrow> u32 list \<Rightarrow> nat \<Rightarrow> nat list \<Rightarrow> real \<times> int \<times> int \<Rightarrow> error + real \<times> int \<times> int"
where
  "outerSearch t nodeIndices count [] best = Inr best"
| "outerSearch t nodeIndices count (i # is) best =
     bindE (vget nodeIndices i) (\<lambda>ni.
     bindE (rd t ni) (\<lambda>nin.
     bindE (innerSearch t nodeIndices (aabb nin) i [Suc i..<count] best) (\<lambda>best'.
     outerSearch t nodeIndices count is best')))"

definition vgetI :: "'a list \<Rightarrow> int \<Rightarrow> error + 'a" where
  \<comment> \<open>a vector indexed with an \<^verbatim>\<open>int\<close>\<close>
  "vgetI v i = (if 0 \<le> i then vget v (nat i) else Inl Out_of_range)"

definition vsetI :: "'a list \<Rightarrow> int \<Rightarrow> 'a \<Rightarrow> error + 'a list" where
  "vsetI v i x = (if 0 \<le> i then vset v (nat i) x else Inl Out_of_range)"

definition joinPair :: "Tree \<Rightarrow> u32 list \<Rightarrow> u32 \<Rightarrow> error + Tree \<times> u32 list" where
  \<comment> \<open>one round of \<^verbatim>\<open>while (count > 1)\<close> in \<^verbatim>\<open>rebuild\<close>, without the decrement of
      \<^verbatim>\<open>count\<close>\<close>
  "joinPair t nodeIndices count =
     bindE (outerSearch t nodeIndices (unat count) [0..<unat count] (DBL_MAX, - 1, - 1))
       (\<lambda>(minCost, iMin, jMin).
     bindE (vgetI nodeIndices iMin) (\<lambda>index1.
     bindE (vgetI nodeIndices jMin) (\<lambda>index2.
     bindE (allocateNode t) (\<lambda>(parentIx, t1).
     bindE (wr t1 parentIx (\<lambda>n. n\<lparr>left := index1, right := index2\<rparr>)) (\<lambda>t2.
     bindE (setHeight t2 parentIx index1 index2) (\<lambda>t3.
     bindE (mergeInto t3 parentIx index1 index2) (\<lambda>t4.
     bindE (wr t4 parentIx (\<lambda>n. n\<lparr>parent := NULL_NODE\<rparr>)) (\<lambda>t5.
     bindE (wr t5 index1 (\<lambda>n. n\<lparr>parent := parentIx\<rparr>)) (\<lambda>t6.
     bindE (wr t6 index2 (\<lambda>n. n\<lparr>parent := parentIx\<rparr>)) (\<lambda>t7.
     bindE (vget nodeIndices (unat (count - 1))) (\<lambda>lastIx.
     bindE (vsetI nodeIndices jMin lastIx) (\<lambda>nodeIndices1.
     bindE (vsetI nodeIndices1 iMin parentIx) (\<lambda>nodeIndices2.
     Inr (t7, nodeIndices2))))))))))))))"

fun joinLoop :: "nat \<Rightarrow> Tree \<Rightarrow> u32 list \<Rightarrow> u32 \<Rightarrow> error + Tree \<times> u32 list" where
  "joinLoop 0 t nodeIndices count = Inl Out_of_fuel"
| "joinLoop (Suc k) t nodeIndices count =
     (if count > 1
      then bindE (joinPair t nodeIndices count) (\<lambda>(t', nodeIndices').
           joinLoop k t' nodeIndices' (count - 1))
      else Inr (t, nodeIndices))"

definition rebuild :: "nat \<Rightarrow> Tree \<Rightarrow> (Tree, unit) outcome" where
  "rebuild fuel t =
     liftE (bindE (collectLeaves t (indices (nodeCapacity t))
                     (replicate (unat (nodeCount t)) 0) 0) (\<lambda>(t1, nodeIndices, count).
            bindE (joinLoop fuel t1 nodeIndices count) (\<lambda>(t2, nodeIndices').
            bindE (vget nodeIndices' 0) (\<lambda>r.
            let t3 = t2\<lparr>rootIdx := r\<rparr> in
            bindE (validate fuel t3) (\<lambda>_. Inr t3))))) ()"

section \<open>Sample states\<close>

definition unitBox :: AABB where
  "unitBox = \<lparr>lowerBound = [0, 0], upperBound = [1, 1], centre = [1 / 2, 1 / 2],
               surfaceArea = 4\<rparr>"

definition freeSlot :: "u32 \<Rightarrow> Node" where
  "freeSlot nx = defaultNode\<lparr>next := nx, height := - 1\<rparr>"

definition leafSlot :: "AABB \<Rightarrow> u32 \<Rightarrow> u32 \<Rightarrow> u32 \<Rightarrow> Node" where
  "leafSlot box up nx p =
     \<lparr>aabb = box, parent = up, next = nx, left = NULL_NODE, right = NULL_NODE, height = 0,
      particle = p\<rparr>"

text \<open>The tree \<^verbatim>\<open>Tree(2, 0.0, 2, true)\<close>.\<close>

definition tree0 :: Tree where
  "tree0 = \<lparr>rootIdx = NULL_NODE, nodes = [freeSlot 1, freeSlot NULL_NODE], nodeCount = 0,
             nodeCapacity = 2, freeList = 0, dimension = 2, skinThickness = 0,
             particleMap = [], touchIsOverlap = True\<rparr>"

text \<open>What \<^verbatim>\<open>insertParticle(7, {1, 0}, {0, 1})\<close> leaves behind in that tree.\<close>

definition leakedTree :: Tree where
  "leakedTree =
     tree0\<lparr>nodes := [leafSlot \<lparr>lowerBound = [0, 0], upperBound = [0, 0], centre = [],
                                 surfaceArea = 0\<rparr> NULL_NODE 1 0,
                       freeSlot NULL_NODE],
           nodeCount := 1, freeList := 1\<rparr>"

text \<open>The tree \<^verbatim>\<open>Tree(2, 0.1, 2, true)\<close>, and the same after
  \<^verbatim>\<open>insertParticle(5, {0, 0}, {1, 1})\<close>.\<close>

definition skinTree :: Tree where
  "skinTree = tree0\<lparr>skinThickness := 1 / 10\<rparr>"

definition skinTree5 :: Tree where
  "skinTree5 =
     skinTree\<lparr>rootIdx := 0,
              nodes := [leafSlot \<lparr>lowerBound = [- 1 / 10, - 1 / 10],
                                   upperBound = [11 / 10, 11 / 10],
                                   centre = [1 / 2, 1 / 2], surfaceArea = 24 / 5\<rparr>
                          NULL_NODE 1 5,
                        freeSlot NULL_NODE],
              nodeCount := 1, freeList := 1, particleMap := [(5, 0)]\<rparr>"

text \<open>The tree \<open>tree0\<close> after \<^verbatim>\<open>insertParticle(1, {0, 0}, {1, 1})\<close> and
  \<^verbatim>\<open>insertParticle(2, {0, 0}, {1, 1})\<close>: node 2 is the root, with the leaves 0 and 1 as its
  left and right child.\<close>

definition oneTree :: Tree where
  "oneTree =
     tree0\<lparr>rootIdx := 0, nodes := [leafSlot unitBox NULL_NODE 1 1, freeSlot NULL_NODE],
           nodeCount := 1, freeList := 1, particleMap := [(1, 0)]\<rparr>"

definition tieTree :: Tree where
  "tieTree =
     tree0\<lparr>rootIdx := 2,
           nodes := [leafSlot unitBox 2 1 1,
                     leafSlot unitBox 2 NULL_NODE 2,
                     \<lparr>aabb = unitBox, parent = NULL_NODE, next = 3, left = 0, right = 1,
                      height = 1, particle = 0\<rparr>,
                     freeSlot NULL_NODE],
           nodeCount := 3, nodeCapacity := 4, freeList := 3,
           particleMap := [(1, 0), (2, 1)]\<rparr>"

text \<open>The tree \<open>tree0\<close> after \<^verbatim>\<open>insertParticle(4294967295, {0, 0}, {1, 1})\<close>.\<close>

definition maxTree :: Tree where
  "maxTree =
     tree0\<lparr>rootIdx := 0,
           nodes := [leafSlot unitBox NULL_NODE 1 4294967295, freeSlot NULL_NODE],
           nodeCount := 1, freeList := 1, particleMap := [(4294967295, 0)]\<rparr>"

section \<open>Basic facts\<close>

lemma bindE_Inl [simp]: "bindE (Inl e) f = Inl e"
  by (simp add: bindE_def)

lemma bindE_Inr [simp]: "bindE (Inr x) f = f x"
  by (simp add: bindE_def)

lemma bindE_eq_Inr: "bindE m f = Inr y \<longleftrightarrow> (\<exists>x. m = Inr x \<and> f x = Inr y)"
  by (cases m) simp_all

lemma tree0_constructed: "Tree_ctor 2 0 2 True = Returned tree0 ()"
  by code_simp

lemma skinTree_constructed: "Tree_ctor 2 (1 / 10) 2 True = Returned skinTree ()"
  by code_simp

lemma skinTree5_inserted: "insertParticle 1 skinTree 5 [0, 0] [1, 1] = Returned () skinTree5"
  by code_simp

lemma oneTree_inserted: "insertParticle 1 tree0 1 [0, 0] [1, 1] = Returned () oneTree"
  by code_simp

lemma tieTree_inserted: "insertParticle 2 oneTree 2 [0, 0] [1, 1] = Returned () tieTree"
  by code_simp

lemma maxTree_inserted: "insertParticle 1 tree0 4294967295 [0, 0] [1, 1] = Returned () maxTree"
  by code_simp

section \<open>Claims about failure handling\<close>

text \<open>
  C1 says that a call of \<^verbatim>\<open>insertParticle\<close> which fails with a client input error leaves
  \<^verbatim>\<open>nodeCount\<close>, the free list, the node pool, the root and the particle map as they were.
  The duplicate and the dimension check do run before anything is written, but the test
  \<^verbatim>\<open>lowerBound[i] > upperBound[i]\<close> sits in the loop after \<^verbatim>\<open>allocateNode()\<close>.  On the fresh
  tree \<^verbatim>\<open>Tree(2, 0.0, 2, true)\<close> the call \<^verbatim>\<open>insertParticle(7, {1, 0}, {0, 1})\<close> throws with
  node 0 taken off the free list, reset to a leaf and counted as live.
\<close>

theorem insertParticle_inverted_bounds_keeps_allocation:
  "Tree_ctor 2 0 2 True = Returned tree0 () \<and>
   insertParticle 1 tree0 7 [1, 0] [0, 1] = Thrown Lower_greater_than_upper leakedTree \<and>
   leakedTree \<noteq> tree0 \<and>
   nodeCount tree0 = 0 \<and> nodeCount leakedTree = 1 \<and>
   freeList tree0 = 0 \<and> freeList leakedTree = 1 \<and>
   nodes leakedTree \<noteq> nodes tree0"
proof -
  have "insertParticle 1 tree0 7 [1, 0] [0, 1] = Thrown Lower_greater_than_upper leakedTree"
    by code_simp
  moreover have "nodeCount tree0 = 0" "nodeCount leakedTree = 1"
    "freeList tree0 = 0" "freeList leakedTree = 1"
    by (simp_all add: tree0_def leakedTree_def)
  moreover have "nodes leakedTree \<noteq> nodes tree0"
    by (simp add: tree0_def leakedTree_def leafSlot_def freeSlot_def defaultNode_def)
  moreover from this have "leakedTree \<noteq> tree0"
    by auto
  ultimately show ?thesis
    using tree0_constructed by simp
qed

text \<open>
  C2 says that \<^verbatim>\<open>getAABB(id)\<close> with an id that is not in the particle map reports an
  unknown particle error and changes nothing.  The method indexes the map with
  \<^verbatim>\<open>particleMap[particle]\<close>: on the fresh tree \<^verbatim>\<open>getAABB(7)\<close> returns the empty box of the
  free node 0 and leaves the key 7, mapped to 0, in the particle map.
\<close>

theorem getAABB_unknown_particle_returns_and_registers:
  "map_of (particleMap tree0) 7 = None \<and>
   getAABB tree0 7 = Returned emptyAABB (tree0\<lparr>particleMap := [(7, 0)]\<rparr>) \<and>
   tree0\<lparr>particleMap := [(7, 0)]\<rparr> \<noteq> tree0"
proof -
  have "getAABB tree0 7 = Returned emptyAABB (tree0\<lparr>particleMap := [(7, 0)]\<rparr>)"
    by code_simp
  moreover have "tree0\<lparr>particleMap := [(7, 0)]\<rparr> \<noteq> tree0"
    by (simp add: tree0_def)
  ultimately show ?thesis
    by (simp add: tree0_def)
qed

text \<open>
  C3 says that \<^verbatim>\<open>updateParticle\<close> on a registered particle with valid bounds returns false
  exactly when \<^verbatim>\<open>alwaysReinsert\<close> is false and the stored fattened box contains the new
  unfattened box, and that the tree is unchanged then.  The new box is built with
  \<^verbatim>\<open>AABB aabb(lowerBound, upperBound)\<close>, a constructor that never copies its arguments, so
  the box has dimension 0 and \<^verbatim>\<open>contains\<close> stops at its assertion on the dimensions.  With
  skin 0.1 and particle 5 at (0,0)-(1,1), stored as (-0.1,-0.1)-(1.1,1.1), the update to
  (0.05,0.05)-(1.05,1.05) lies inside the stored box, yet the call does not return false.
\<close>

theorem updateParticle_inside_skin_does_not_return_false:
  "Tree_ctor 2 (1 / 10) 2 True = Returned skinTree () \<and>
   insertParticle 1 skinTree 5 [0, 0] [1, 1] = Returned () skinTree5 \<and>
   rd skinTree5 0 = Inr (nodes skinTree5 ! 0) \<and>
   contains (aabb (nodes skinTree5 ! 0))
     \<lparr>lowerBound = [1 / 20, 1 / 20], upperBound = [21 / 20, 21 / 20],
      centre = [11 / 20, 11 / 20], surfaceArea = 4\<rparr> = Inr True \<and>
   AABB_ctor [1 / 20, 1 / 20] [21 / 20, 21 / 20] = Returned emptyAABB () \<and>
   updateParticle 1 skinTree5 5 [1 / 20, 1 / 20] [21 / 20, 21 / 20] False
     = Crashed Assertion_failed"
proof -
  have "rd skinTree5 0 = Inr (nodes skinTree5 ! 0)"
    by code_simp
  moreover have "contains (aabb (nodes skinTree5 ! 0))
     \<lparr>lowerBound = [1 / 20, 1 / 20], upperBound = [21 / 20, 21 / 20],
      centre = [11 / 20, 11 / 20], surfaceArea = 4\<rparr> = Inr True"
    by code_simp
  moreover have "AABB_ctor [1 / 20, 1 / 20] [21 / 20, 21 / 20] = Returned emptyAABB ()"
    by code_simp
  moreover have "updateParticle 1 skinTree5 5 [1 / 20, 1 / 20] [21 / 20, 21 / 20] False
     = Crashed Assertion_failed"
    by code_simp
  ultimately show ?thesis
    using skinTree_constructed skinTree5_inserted by simp
qed

text \<open>
  C4 says that \<^verbatim>\<open>updateParticle\<close> reports a dimension error as soon as one of the two
  vectors has a length other than the dimension of the tree.  The guard joins the two
  comparisons with \<^verbatim>\<open>&&\<close> (\<^verbatim>\<open>insertParticle\<close> has \<^verbatim>\<open>||\<close>).  In the two dimensional tree
  holding particle 5, a lower vector of length 3 with an upper vector of length 2 passes the
  guard: the call goes on to the lookup and the box test and never throws the dimension
  error, which is thrown only when both lengths are wrong.
\<close>

theorem updateParticle_one_wrong_length_passes_guard:
  "dimension skinTree5 = 2 \<and>
   updateParticle 1 skinTree5 5 [0, 0, 0] [1, 1] False = Crashed Assertion_failed \<and>
   updateParticle 1 skinTree5 5 [0, 0, 0] [1, 1] True = Crashed Out_of_range \<and>
   updateParticle 1 skinTree5 9 [0, 0, 0] [1, 1] False = Thrown Invalid_particle_index skinTree5 \<and>
   updateParticle 1 skinTree5 5 [0, 0, 0] [1, 1, 1] False
     = Thrown Dimensionality_mismatch skinTree5"
proof -
  have "dimension skinTree5 = 2"
    by (simp add: skinTree5_def skinTree_def tree0_def)
  moreover have "updateParticle 1 skinTree5 5 [0, 0, 0] [1, 1] False = Crashed Assertion_failed"
    by code_simp
  moreover have "updateParticle 1 skinTree5 5 [0, 0, 0] [1, 1] True = Crashed Out_of_range"
    by code_simp
  moreover have "updateParticle 1 skinTree5 9 [0, 0, 0] [1, 1] False
     = Thrown Invalid_particle_index skinTree5"
    by code_simp
  moreover have "updateParticle 1 skinTree5 5 [0, 0, 0] [1, 1, 1] False
     = Thrown Dimensionality_mismatch skinTree5"
    by code_simp
  ultimately show ?thesis
    by simp
qed

text \<open>
  C5 says that \<^verbatim>\<open>AABB(lower, upper)\<close> fails when some \<^verbatim>\<open>lower[i] > upper[i]\<close>.  Both checks of
  the constructor read the members of the new object instead of the parameters, so for all
  arguments, \<^verbatim>\<open>AABB({1, 1}, {0, 0})\<close> among them, the constructor returns, and returns the box
  of dimension 0.
\<close>

theorem AABB_ctor_never_fails:
  "AABB_ctor lower upper = Returned emptyAABB () \<and>
   AABB_ctor [1, 1] [0, 0] = Returned emptyAABB ()"
  by (simp add: AABB_ctor_def emptyAABB_def refreshDerived_def computeSurfaceArea_def
      computeCentre_def)

text \<open>
  C8 says that \<^verbatim>\<open>rebuild()\<close> keeps the live leaves and leaves a valid tree, for every valid
  tree.  The empty tree is a valid tree; there \<^verbatim>\<open>nodeIndices\<close> has length \<^verbatim>\<open>nodeCount = 0\<close>,
  the loops do nothing, and the statement \<^verbatim>\<open>root = nodeIndices[0]\<close> indexes an empty vector.
\<close>

theorem rebuild_empty_tree_reads_outside_nodeIndices:
  "rootIdx tree0 = NULL_NODE \<and> nodeCount tree0 = 0 \<and>
   rebuild (Suc k) tree0 = Crashed Out_of_range"
proof -
  have "collectLeaves tree0 (indices (nodeCapacity tree0))
          (replicate (unat (nodeCount tree0)) 0) 0 = Inr (tree0, [], 0)"
    by code_simp
  then have "rebuild (Suc k) tree0 = Crashed Out_of_range"
    by (simp add: rebuild_def vget_def liftE_def)
  then show ?thesis
    by (simp add: tree0_def)
qed

section \<open>The descent of insertLeaf\<close>

text \<open>
  C6 says that the descent of \<^verbatim>\<open>insertLeaf\<close>, where it continues and the costs of the two
  children are equal, goes to the left child.  The code descends with
  \<^verbatim>\<open>if (costLeft < costRight) index = left; else index = right;\<close>.  In \<open>tieTree\<close> the root 2
  has the leaves 0 and 1, all three with the box (0,0)-(1,1); for a new leaf with the same
  box the costs are 8 for stopping and 4 for either child, and the descent goes to the
  right child 1.
\<close>

theorem descent_tie_goes_right_in_tieTree:
  "rd tieTree 2 = Inr (nodes tieTree ! 2) \<and>
   \<not> isLeaf (nodes tieTree ! 2) \<and>
   left (nodes tieTree ! 2) = 0 \<and>
   right (nodes tieTree ! 2) = 1 \<and>
   sahCosts tieTree unitBox (nodes tieTree ! 2) = Inr (8, 4, 4) \<and>
   descendStep tieTree unitBox 2 = Inr (Some 1) \<and>
   descendStep tieTree unitBox 2 \<noteq> Inr (Some (left (nodes tieTree ! 2))) \<and>
   findSibling 2 tieTree unitBox (rootIdx tieTree) = Inr 1"
proof -
  have "rd tieTree 2 = Inr (nodes tieTree ! 2)"
    by code_simp
  moreover have "\<not> isLeaf (nodes tieTree ! 2)"
    by code_simp
  moreover have l: "left (nodes tieTree ! 2) = 0"
    by code_simp
  moreover have "right (nodes tieTree ! 2) = 1"
    by code_simp
  moreover have "sahCosts tieTree unitBox (nodes tieTree ! 2) = Inr (8, 4, 4)"
    by code_simp
  moreover have d: "descendStep tieTree unitBox 2 = Inr (Some 1)"
    by code_simp
  moreover have "descendStep tieTree unitBox 2 \<noteq> Inr (Some (left (nodes tieTree ! 2)))"
    by (simp add: d l)
  moreover have "findSibling 2 tieTree unitBox (rootIdx tieTree) = Inr 1"
    by code_simp
  ultimately show ?thesis
    by blast
qed

text \<open>
  C6 as the code has it: at an internal node where the descent continues (the test
  \<^verbatim>\<open>cost < costLeft && cost < costRight\<close> fails) and the two costs of descending are equal,
  the descent goes to the right child; the left child is taken only when its cost is
  strictly smaller.
\<close>

theorem descent_tie_goes_right:
  assumes "rd t index = Inr n"
    and "\<not> isLeaf n"
    and "sahCosts t leafAABB n = Inr (cost, costLeft, costRight)"
    and "\<not> (cost < costLeft \<and> cost < costRight)"
  shows "descendStep t leafAABB index
           = Inr (Some (if costLeft < costRight then left n else right n)) \<and>
         (costLeft = costRight \<longrightarrow>
            descendStep t leafAABB index = Inr (Some (right n)) \<and>
            findSibling (Suc k) t leafAABB index = findSibling k t leafAABB (right n))"
  using assms by (auto simp add: descendStep_def)

theorem descent_tie_goes_right_witness:
  "rd tieTree 2 = Inr (nodes tieTree ! 2) \<and>
   \<not> isLeaf (nodes tieTree ! 2) \<and>
   sahCosts tieTree unitBox (nodes tieTree ! 2) = Inr (8, 4, 4) \<and>
   \<not> ((8 :: real) < 4 \<and> (8 :: real) < 4) \<and>
   descendStep tieTree unitBox 2 = Inr (Some (right (nodes tieTree ! 2))) \<and>
   right (nodes tieTree ! 2) = 1"
proof -
  have 1: "rd tieTree 2 = Inr (nodes tieTree ! 2)"
    by code_simp
  have 2: "\<not> isLeaf (nodes tieTree ! 2)"
    by code_simp
  have 3: "sahCosts tieTree unitBox (nodes tieTree ! 2) = Inr (8, 4, 4)"
    by code_simp
  have 4: "\<not> ((8 :: real) < 4 \<and> (8 :: real) < 4)"
    by simp
  have 5: "right (nodes tieTree ! 2) = 1"
    by code_simp
  from descent_tie_goes_right [OF 1 2 3 4]
  have "descendStep tieTree unitBox 2 = Inr (Some (right (nodes tieTree ! 2)))"
    by simp
  with 1 2 3 4 5 show ?thesis
    by blast
qed

section \<open>Queries\<close>

lemma queryLoop_excludes:
  "queryLoop fuel t p box stack ps = Inr res \<Longrightarrow> p \<notin> set ps \<Longrightarrow> p \<notin> set res"
proof (induction fuel t p box stack ps arbitrary: res rule: queryLoop.induct)
  case (1 fuel t particleId box particles)
  then show ?case
    by simp
next
  case (2 t particleId box node stack particles)
  then show ?case
    by simp
next
  case (3 k t particleId box node stack particles)
  from "3.prems"(1) obtain n where n: "rd t node = Inr n"
    by (auto simp add: bindE_eq_Inr)
  from "3.prems" n "3.IH" show ?case
    by (auto simp add: bindE_eq_Inr Let_def split: if_splits)
qed

text \<open>
  C9: for a tree with at least one registered particle, \<^verbatim>\<open>query(aabb)\<close> is
  \<^verbatim>\<open>query(4294967295, aabb)\<close>, and no list that \<^verbatim>\<open>query(aabb)\<close> returns holds the identifier
  4294967295, whatever the boxes of the leaves are.
\<close>

theorem queryAABB_never_returns_max_id:
  "(particleMap t \<noteq> [] \<longrightarrow> queryAABB fuel t box = query fuel t 4294967295 box) \<and>
   (queryAABB fuel t box = Inr ps \<longrightarrow> 4294967295 \<notin> set ps)"
proof -
  have max: "(- 1 :: u32) = 4294967295"
    by simp
  have "queryAABB fuel t box = Inr ps \<Longrightarrow> 4294967295 \<notin> set ps"
    by (cases "particleMap t")
      (auto simp add: queryAABB_def query_def max dest: queryLoop_excludes)
  then show ?thesis
    by (auto simp add: queryAABB_def max)
qed

theorem queryAABB_never_returns_max_id_witness:
  "particleMap maxTree \<noteq> [] \<and>
   map_of (particleMap maxTree) 4294967295 = Some 0 \<and>
   rd maxTree 0 = Inr (leafSlot unitBox NULL_NODE 1 4294967295) \<and>
   overlaps unitBox (aabb (leafSlot unitBox NULL_NODE 1 4294967295)) (touchIsOverlap maxTree)
     = Inr True \<and>
   queryAABB 1 maxTree unitBox = query 1 maxTree 4294967295 unitBox \<and>
   queryAABB 1 maxTree unitBox = Inr [] \<and>
   query 1 maxTree 7 unitBox = Inr [4294967295] \<and>
   4294967295 \<notin> set ([] :: u32 list)"
proof -
  have 1: "particleMap maxTree \<noteq> []"
    by (simp add: maxTree_def)
  have 2: "map_of (particleMap maxTree) 4294967295 = Some 0"
    by (simp add: maxTree_def)
  have 3: "rd maxTree 0 = Inr (leafSlot unitBox NULL_NODE 1 4294967295)"
    by code_simp
  have 4: "overlaps unitBox (aabb (leafSlot unitBox NULL_NODE 1 4294967295))
             (touchIsOverlap maxTree) = Inr True"
    by code_simp
  have 5: "queryAABB 1 maxTree unitBox = Inr []"
    by code_simp
  have 6: "query 1 maxTree 7 unitBox = Inr [4294967295]"
    by code_simp
  from queryAABB_never_returns_max_id [of maxTree 1 unitBox "[]"] 1 5
  have "queryAABB 1 maxTree unitBox = query 1 maxTree 4294967295 unitBox
        \<and> 4294967295 \<notin> set ([] :: u32 list)"
    by simp
  with 1 2 3 4 5 6 show ?thesis
    by blast
qed

text \<open>
  C10: in \<^verbatim>\<open>query(particle, aabb)\<close> the index popped from the stack is used in
  \<^verbatim>\<open>nodes[node].aabb\<close> before it is compared with \<^verbatim>\<open>NULL_NODE\<close>.  So whenever the top of the
  stack is \<^verbatim>\<open>NULL_NODE\<close> the pool, which has \<^verbatim>\<open>nodeCapacity\<close> entries, is indexed at
  4294967295, outside it; this is what happens at once when the tree is empty.
\<close>

theorem query_indexes_pool_at_NULL_NODE:
  assumes "length (nodes t) = unat (nodeCapacity t)"
  shows "unat NULL_NODE = 4294967295 \<and> length (nodes t) \<le> unat NULL_NODE \<and>
         rd t NULL_NODE = Inl Out_of_range \<and>
         queryLoop (Suc k) t particleId box (NULL_NODE # stack) particles = Inl Out_of_range \<and>
         (rootIdx t = NULL_NODE \<longrightarrow> query (Suc k) t particleId box = Inl Out_of_range)"
proof -
  have "unat (nodeCapacity t) < 2 ^ LENGTH(32)"
    by (rule unsigned_less)
  with assms have le: "length (nodes t) \<le> unat NULL_NODE"
    by (simp add: NULL_NODE_def)
  then have "rd t NULL_NODE = Inl Out_of_range"
    by (simp add: rd_def vget_def)
  with le show ?thesis
    by (simp add: query_def NULL_NODE_def)
qed

theorem query_indexes_pool_at_NULL_NODE_witness:
  "length (nodes tree0) = unat (nodeCapacity tree0) \<and>
   rootIdx tree0 = NULL_NODE \<and>
   queryLoop 1 tree0 7 unitBox [NULL_NODE] [] = Inl Out_of_range \<and>
   query 1 tree0 7 unitBox = Inl Out_of_range"
proof -
  have 1: "length (nodes tree0) = unat (nodeCapacity tree0)"
    by (simp add: tree0_def)
  have 2: "rootIdx tree0 = NULL_NODE"
    by (simp add: tree0_def)
  from query_indexes_pool_at_NULL_NODE [OF 1, of 0 7 unitBox "[]" "[]"] 2
  show ?thesis
    using 1 by simp
qed

end
